theory Spec2Isabelle
  imports Complex_Main
begin

section \<open>Speaker-encoder inference: partial-utterance geometry and aggregation\<close>

text \<open>
  A shallow embedding of \<^verbatim>\<open>encoder/inference.py\<close> (functions
  \<^verbatim>\<open>compute_partial_slices\<close>, \<^verbatim>\<open>embed_frames_batch\<close>,
  \<^verbatim>\<open>embed_utterance\<close>) and of the constants of \<^verbatim>\<open>params.py\<close> it reads.

  Conventions of the embedding.
  \<^item> Python integers are \<open>int\<close> (unbounded).
  \<^item> Python and numpy floats are idealised as \<open>real\<close>: every float operation is the
    exact operation on real numbers. Rounding error, overflow to infinity and the
    64-bit width of numpy's integer arrays are outside the model. The two places where
    numpy produces a non-finite value from finite operands (a division by zero) are
    written out: \<open>np_float\<close> below, and the outcome \<open>NaNEmbedding\<close> of the aggregation.
  \<^item> Every raise of the source is a branch returning \<open>Inl\<close> of an \<open>error\<close>.
  \<^item> The module constants of the parameter file are the fields of the record
    \<open>params_data\<close>, passed explicitly; \<open>default_params\<close> holds the configured values.
  \<^item> The external collaborators (the feature extractor \<^verbatim>\<open>audio.wav_to_mel_filterbank\<close>
    and the loaded network \<^verbatim>\<open>_model.forward\<close>) are function parameters.
\<close>

subsection \<open>Errors, slices, floats\<close>

datatype error =
    AssertionError
  | ZeroDivisionError
  | IndexError
  | ModelNotLoaded
  | NaNEmbedding

text \<open>Python's \<^verbatim>\<open>slice(start, stop)\<close> (the step is always \<^verbatim>\<open>None\<close> here).\<close>

datatype py_slice = Slice (start: int) (stop: int)

text \<open>
  The result of numpy's true division of two integers: finite when the divisor is not
  zero, otherwise an infinity or NaN (numpy warns and does not raise).
\<close>

datatype np_float = Finite real | PosInf | NegInf | NaN

definition np_true_divide :: "int \<Rightarrow> int \<Rightarrow> np_float" where
  "np_true_divide a b =
     (if b \<noteq> 0 then Finite (real_of_int a / real_of_int b)
      else if 0 < a then PosInf
      else if a < 0 then NegInf
      else NaN)"

text \<open>The comparison \<^verbatim>\<open>x < y\<close> of such a value with a finite float.\<close>

fun np_less :: "np_float \<Rightarrow> real \<Rightarrow> bool" where
  "np_less (Finite x) y = (x < y)"
| "np_less PosInf y = False"
| "np_less NegInf y = True"
| "np_less NaN y = False"

text \<open>\<^verbatim>\<open>int(x)\<close> of a float: truncation toward zero.\<close>

definition py_int :: "real \<Rightarrow> int" where
  "py_int x = (if 0 \<le> x then \<lfloor>x\<rfloor> else \<lceil>x\<rceil>)"

text \<open>\<^verbatim>\<open>int(np.ceil(x))\<close>.\<close>

definition np_ceil :: "real \<Rightarrow> int" where
  "np_ceil x = \<lceil>x\<rceil>"

text \<open>\<^verbatim>\<open>int(np.round(x))\<close>: numpy rounds a half to the nearest even integer.\<close>

definition np_round :: "real \<Rightarrow> int" where
  "np_round x =
     (let f = \<lfloor>x\<rfloor>; d = x - real_of_int f
      in if d < 1 / 2 then f
         else if 1 / 2 < d then f + 1
         else if even f then f else f + 1)"

text \<open>
  \<^verbatim>\<open>range(i, stop, step)\<close> as a list, for a positive step. The source calls it with
  \<^verbatim>\<open>frame_step\<close>, which line 83 makes at least 1; the guard on the step is there
  for the termination of the definition.
\<close>

function py_range :: "int \<Rightarrow> int \<Rightarrow> int \<Rightarrow> int list" where
  "py_range i stop_at step =
     (if 0 < step \<and> i < stop_at then i # py_range (i + step) stop_at step else [])"
  by pat_completeness auto
termination
  by (relation "measure (\<lambda>(i, stop_at, step). nat (stop_at - i))") auto

declare py_range.simps [simp del]

subsection \<open>The parameter file\<close>

record params_data =
  sampling_rate :: int
  mel_window_step :: int
  partials_n_frames :: int

text \<open>
  Modelled from the spec: the value 160 of \<^verbatim>\<open>partials_n_frames\<close>. The module
  \<^verbatim>\<open>encoder.params_data\<close> that \<^verbatim>\<open>inference.py\<close> imports is not among the sources;
  the parameter file at hand names the same quantity \<^verbatim>\<open>partial_utterance_length = 160\<close>,
  and the specification gives the partial-utterance length as 160 frames. The other
  two fields are the parameter file's \<^verbatim>\<open>sampling_rate = 16000\<close> and
  \<^verbatim>\<open>mel_window_step = 10\<close>.
\<close>

definition default_params :: params_data where
  "default_params =
     \<lparr>sampling_rate = 16000, mel_window_step = 10, partials_n_frames = 160\<rparr>"

subsection \<open>compute_partial_slices\<close>

text \<open>Line 81: \<^verbatim>\<open>samples_per_frame = int((sampling_rate * mel_window_step / 1000))\<close>.\<close>

definition samples_per_frame :: "params_data \<Rightarrow> int" where
  "samples_per_frame cfg =
     py_int (real_of_int (sampling_rate cfg * mel_window_step cfg) / 1000)"

text \<open>
  Line 82: \<^verbatim>\<open>n_frames = int(np.ceil((n_samples + 1) / samples_per_frame))\<close>. Both
  operands are Python integers, so a zero divisor raises.
\<close>

definition n_frames_of :: "int \<Rightarrow> int \<Rightarrow> error + int" where
  "n_frames_of spf n_samples =
     (if spf = 0 then Inl ZeroDivisionError
      else Inr (np_ceil (real_of_int (n_samples + 1) / real_of_int spf)))"

text \<open>Line 83: \<^verbatim>\<open>frame_step = max(int(np.round(partial_utterance_n_frames * (1 - overlap))), 1)\<close>.\<close>

definition frame_step_of :: "int \<Rightarrow> real \<Rightarrow> int" where
  "frame_step_of partial_utterance_n_frames overlap =
     max (np_round (real_of_int partial_utterance_n_frames * (1 - overlap))) 1"

text \<open>Line 87: \<^verbatim>\<open>steps = max(1, n_frames - partial_utterance_n_frames + frame_step + 1)\<close>.\<close>

definition steps_of :: "int \<Rightarrow> int \<Rightarrow> int \<Rightarrow> int" where
  "steps_of n_frames partial_utterance_n_frames frame_step =
     max 1 (n_frames - partial_utterance_n_frames + frame_step + 1)"

text \<open>
  Lines 89 to 92, the body of the loop: the state is the pair of lists
  \<^verbatim>\<open>(wav_slices, mel_slices)\<close>, and one iteration appends one slice to each.
\<close>

definition append_slices ::
  "int \<Rightarrow> int \<Rightarrow> py_slice list \<times> py_slice list \<Rightarrow> int \<Rightarrow> py_slice list \<times> py_slice list" where
  "append_slices partial_utterance_n_frames spf acc i =
     (let mel_range = (i, i + partial_utterance_n_frames);
          wav_range = (fst mel_range * spf, snd mel_range * spf)
      in (fst acc @ [Slice (fst wav_range) (snd wav_range)],
          snd acc @ [Slice (fst mel_range) (snd mel_range)]))"

text \<open>Lines 86 to 92: the lists start empty and the loop runs over \<^verbatim>\<open>range(0, steps, frame_step)\<close>.\<close>

definition slices_loop :: "int \<Rightarrow> int \<Rightarrow> int \<Rightarrow> int \<Rightarrow> py_slice list \<times> py_slice list" where
  "slices_loop partial_utterance_n_frames spf steps frame_step =
     foldl (append_slices partial_utterance_n_frames spf) ([], []) (py_range 0 steps frame_step)"

text \<open>
  Lines 81 to 92 together: the plan before the tail check, as
  \<^verbatim>\<open>(wav_slices, mel_slices)\<close>.
\<close>

definition precheck_slices ::
  "params_data \<Rightarrow> int \<Rightarrow> int \<Rightarrow> real \<Rightarrow> error + (py_slice list \<times> py_slice list)" where
  "precheck_slices cfg n_samples partial_utterance_n_frames overlap =
     (let spf = samples_per_frame cfg
      in case n_frames_of spf n_samples of
           Inl e \<Rightarrow> Inl e
         | Inr n_frames \<Rightarrow>
             (let frame_step = frame_step_of partial_utterance_n_frames overlap;
                  steps = steps_of n_frames partial_utterance_n_frames frame_step
              in Inr (slices_loop partial_utterance_n_frames spf steps frame_step)))"

text \<open>Line 96: the coverage of the last waveform slice (a numpy division).\<close>

definition coverage :: "int \<Rightarrow> py_slice \<Rightarrow> np_float" where
  "coverage n_samples last_wav_range =
     np_true_divide (n_samples - start last_wav_range) (stop last_wav_range - start last_wav_range)"

text \<open>
  Lines 95 to 101: \<^verbatim>\<open>wav_slices[-1]\<close> raises on an empty list; the last pair is
  dropped when the coverage is too low and there is more than one slice.
\<close>

definition tail_check ::
  "int \<Rightarrow> real \<Rightarrow> py_slice list \<times> py_slice list \<Rightarrow> error + (py_slice list \<times> py_slice list)" where
  "tail_check n_samples min_pad_coverage plan =
     (let wav_slices = fst plan; mel_slices = snd plan
      in if wav_slices = [] then Inl IndexError
         else
           (let last_wav_range = last wav_slices
            in if np_less (coverage n_samples last_wav_range) min_pad_coverage
                  \<and> 1 < length mel_slices
               then Inr (butlast wav_slices, butlast mel_slices)
               else Inr (wav_slices, mel_slices)))"

text \<open>
  The function itself: the two assertions of lines 78 and 79 come first, then the
  enumeration, then the tail check. The result is \<^verbatim>\<open>(wav_slices, mel_slices)\<close>.
\<close>

definition compute_partial_slices ::
  "params_data \<Rightarrow> int \<Rightarrow> int \<Rightarrow> real \<Rightarrow> real \<Rightarrow> error + (py_slice list \<times> py_slice list)" where
  "compute_partial_slices cfg n_samples partial_utterance_n_frames min_pad_coverage overlap =
     (if \<not> (0 \<le> overlap \<and> overlap < 1) then Inl AssertionError
      else if \<not> (0 < min_pad_coverage \<and> min_pad_coverage \<le> 1) then Inl AssertionError
      else case precheck_slices cfg n_samples partial_utterance_n_frames overlap of
             Inl e \<Rightarrow> Inl e
           | Inr plan \<Rightarrow> tail_check n_samples min_pad_coverage plan)"

text \<open>
  The keyword arguments a caller may leave out, with the defaults of the signature:
  \<^verbatim>\<open>partial_utterance_n_frames=partials_n_frames, min_pad_coverage=0.75, overlap=0.5\<close>.
\<close>

record kwargs =
  kw_partial_utterance_n_frames :: "int option"
  kw_min_pad_coverage :: "real option"
  kw_overlap :: "real option"

definition no_kwargs :: kwargs where
  "no_kwargs =
     \<lparr>kw_partial_utterance_n_frames = None, kw_min_pad_coverage = None, kw_overlap = None\<rparr>"

definition call_compute_partial_slices ::
  "params_data \<Rightarrow> int \<Rightarrow> kwargs \<Rightarrow> error + (py_slice list \<times> py_slice list)" where
  "call_compute_partial_slices cfg n_samples kw =
     compute_partial_slices cfg n_samples
       (case kw_partial_utterance_n_frames kw of None \<Rightarrow> partials_n_frames cfg | Some p \<Rightarrow> p)
       (case kw_min_pad_coverage kw of None \<Rightarrow> 3 / 4 | Some c \<Rightarrow> c)
       (case kw_overlap kw of None \<Rightarrow> 1 / 2 | Some ov \<Rightarrow> ov)"

subsection \<open>Arrays: waveforms, spectrograms, embeddings\<close>

text \<open>
  A waveform is a one-dimensional float array; a spectrogram has one row per frame
  (\<^verbatim>\<open>n_frames\<close> rows of \<^verbatim>\<open>n_channels\<close> values); an embedding is a float vector. A
  batch is a list of rows.
\<close>

type_synonym waveform = "real list"
type_synonym spectrogram = "real list list"
type_synonym embedding = "real list"

text \<open>
  \<^verbatim>\<open>xs[s]\<close> for a slice without step, with Python's rule for the bounds: a negative
  bound counts from the end, and both bounds are clipped to the length.
\<close>

definition py_slice_bound :: "nat \<Rightarrow> int \<Rightarrow> nat" where
  "py_slice_bound n i = (if i < 0 then nat (max (i + int n) 0) else min (nat i) n)"

definition py_getslice :: "'a list \<Rightarrow> py_slice \<Rightarrow> 'a list" where
  "py_getslice xs s =
     (let lo = py_slice_bound (length xs) (start s);
          hi = py_slice_bound (length xs) (stop s)
      in take (hi - lo) (drop lo xs))"

text \<open>
  \<^verbatim>\<open>np.pad(wav, (0, k), "constant")\<close>: a new array, the old contents followed by
  \<open>k\<close> zeros. It is called under the guard \<^verbatim>\<open>max_wave_length >= len(wav)\<close> only, so
  \<open>k\<close> is never negative there.
\<close>

definition np_pad_right :: "waveform \<Rightarrow> int \<Rightarrow> waveform" where
  "np_pad_right wav k = wav @ replicate (nat k) 0"

text \<open>\<^verbatim>\<open>np.mean(rows, axis=0)\<close> for a non-empty batch of rows of one length.\<close>

fun vec_sum :: "embedding list \<Rightarrow> embedding" where
  "vec_sum [] = []"
| "vec_sum [r] = r"
| "vec_sum (r # rs) = map2 (+) r (vec_sum rs)"

definition np_mean_axis0 :: "embedding list \<Rightarrow> embedding" where
  "np_mean_axis0 rows = map (\<lambda>x. x / real (length rows)) (vec_sum rows)"

text \<open>\<^verbatim>\<open>np.linalg.norm(v, 2)\<close> of a vector.\<close>

definition np_linalg_norm :: "embedding \<Rightarrow> real" where
  "np_linalg_norm v = sqrt (\<Sum>x\<leftarrow>v. x\<^sup>2)"

subsection \<open>embed_frames_batch\<close>

text \<open>
  The global \<^verbatim>\<open>_model\<close> is \<open>None\<close> until a model is loaded; a loaded model is its
  \<^verbatim>\<open>forward\<close> function, from a batch of spectrograms to one embedding per element.
\<close>

type_synonym speaker_encoder = "spectrogram list \<Rightarrow> embedding list"

definition embed_frames_batch ::
  "speaker_encoder option \<Rightarrow> spectrogram list \<Rightarrow> error + embedding list" where
  "embed_frames_batch model frames_batch =
     (case model of
        None \<Rightarrow> Inl ModelNotLoaded
      | Some forward \<Rightarrow> Inr (forward frames_batch))"

subsection \<open>embed_utterance\<close>

text \<open>
  What the function returns: the embedding alone, or the triple
  \<^verbatim>\<open>(embed, partial_embeds, wave_slices)\<close> whose last two components may be \<open>None\<close>.
\<close>

datatype utterance_result =
    Embed embedding
  | EmbedPartials embedding "embedding list option" "py_slice list option"


text \<open>
  Lines 131 to 133: the waveform given to the feature extractor in the partial path.
  \<^verbatim>\<open>wave_slices\<close> is not empty where this is used.
\<close>

definition pad_to_last_slice :: "waveform \<Rightarrow> py_slice list \<Rightarrow> waveform" where
  "pad_to_last_slice wav wave_slices =
     (let max_wave_length = stop (last wave_slices)
      in if int (length wav) \<le> max_wave_length
         then np_pad_right wav (max_wave_length - int (length wav))
         else wav)"




text \<open>
  Lines 141 and 142: \<^verbatim>\<open>raw_embed = np.mean(partial_embeds, axis=0)\<close>, then
  \<^verbatim>\<open>embed = raw_embed / np.linalg.norm(raw_embed, 2)\<close>. Where numpy divides zero by
  zero (an empty batch, or a mean that is the zero vector) it returns NaN in every
  component and does not raise; the reals have no NaN, so this outcome is the value
  \<open>Inl NaNEmbedding\<close>.
\<close>

definition mean_and_normalize :: "embedding list \<Rightarrow> error + embedding" where
  "mean_and_normalize partial_embeds =
     (if partial_embeds = [] then Inl NaNEmbedding
      else
        (let raw_embed = np_mean_axis0 partial_embeds;
             norm2 = np_linalg_norm raw_embed
         in if raw_embed = [] then Inr []
            else if norm2 = 0 then Inl NaNEmbedding
            else Inr (map (\<lambda>x. x / norm2) raw_embed)))"

text \<open>
  The function, with the configuration, the loaded model and the feature extractor as
  explicit arguments. \<^verbatim>\<open>embeds[0]\<close> and \<^verbatim>\<open>wave_slices[-1]\<close> raise on an empty
  sequence.
\<close>

definition embed_utterance ::
  "params_data \<Rightarrow> speaker_encoder option \<Rightarrow> (waveform \<Rightarrow> spectrogram) \<Rightarrow>
     waveform \<Rightarrow> bool \<Rightarrow> bool \<Rightarrow> kwargs \<Rightarrow> error + utterance_result" where
  "embed_utterance cfg model wav_to_mel_filterbank wav using_partials return_partials kw =
     (if \<not> using_partials then
        (let frames = wav_to_mel_filterbank wav
         in case embed_frames_batch model [frames] of
              Inl e \<Rightarrow> Inl e
            | Inr embeds \<Rightarrow>
                (case embeds of
                   [] \<Rightarrow> Inl IndexError
                 | embed' # _ \<Rightarrow>
                     if return_partials then Inr (EmbedPartials embed' None None)
                     else Inr (Embed embed')))
      else
        (case call_compute_partial_slices cfg (int (length wav)) kw of
           Inl e \<Rightarrow> Inl e
         | Inr (wave_slices, mel_slices) \<Rightarrow>
             if wave_slices = [] then Inl IndexError
             else
               (let wav' = pad_to_last_slice wav wave_slices;
                    frames = wav_to_mel_filterbank wav';
                    frames_batch = map (py_getslice frames) mel_slices
                in case embed_frames_batch model frames_batch of
                     Inl e \<Rightarrow> Inl e
                   | Inr partial_embeds \<Rightarrow>
                       (case mean_and_normalize partial_embeds of
                          Inl e \<Rightarrow> Inl e
                        | Inr embed' \<Rightarrow>
                            if return_partials
                            then Inr (EmbedPartials embed' (Some partial_embeds) (Some wave_slices))
                            else Inr (Embed embed')))))"

section \<open>Properties\<close>

subsection \<open>The loop in closed form\<close>









subsection \<open>The tail check and the whole function in closed form\<close>




subsection \<open>Preconditions and safety\<close>

text \<open>
  Claim C8. Whenever \<open>overlap\<close> is outside \<open>[0, 1)\<close> or \<open>min_pad_coverage\<close> is outside
  \<open>(0, 1]\<close>, \<open>compute_partial_slices\<close> fails with the assertion error, whatever the other
  arguments and the configuration are (also where a later line would have raised for
  another reason), and so returns no slice lists.
\<close>

theorem compute_partial_slices_precondition:
  assumes "ov < 0 \<or> 1 \<le> ov \<or> c \<le> 0 \<or> 1 < c"
  shows "compute_partial_slices cfg n p c ov = Inl AssertionError"
  using assms by (auto simp add: compute_partial_slices_def)

theorem compute_partial_slices_precondition_witness:
  "((1::real) < 0 \<or> (1::real) \<le> 1 \<or> (3 / 4 :: real) \<le> 0 \<or> (1::real) < 3 / 4) \<and>
   compute_partial_slices default_params 32000 160 (3 / 4) 1 = Inl AssertionError \<and>
   compute_partial_slices \<lparr>sampling_rate = 0, mel_window_step = 10, partials_n_frames = 160\<rparr>
     32000 160 (3 / 2) (1 / 2) = Inl AssertionError"
  using compute_partial_slices_precondition [of 1 "3 / 4" default_params 32000 160]
    compute_partial_slices_precondition [of "1 / 2" "3 / 2"
      "\<lparr>sampling_rate = 0, mel_window_step = 10, partials_n_frames = 160\<rparr>" 32000 160]
  by simp

lemma samples_per_frame_default: "samples_per_frame default_params = 160"
  by (simp add: samples_per_frame_def default_params_def py_int_def)




subsection \<open>The enumeration before the tail check\<close>




subsection \<open>The tail-coverage policy\<close>








subsection \<open>Shape of the returned plan\<close>





subsection \<open>Samples per frame\<close>

lemma py_int_of_int_div_1000:
  "py_int (real_of_int a / 1000) = (if 0 \<le> a then a div 1000 else - ((- a) div 1000))"
proof -
  have fl: "\<lfloor>real_of_int a / 1000\<rfloor> = a div 1000"
    using floor_divide_of_int_eq[of a 1000, where ?'a = real] by simp
  have ce: "\<lceil>real_of_int a / 1000\<rceil> = - ((- a) div 1000)"
    using floor_divide_of_int_eq[of "- a" 1000, where ?'a = real]
    by (simp add: ceiling_def)
  show ?thesis
    by (simp add: py_int_def fl ce zero_le_divide_iff)
qed

text \<open>
  Claim C4, as the code has it. \<open>samples_per_frame\<close> is the truncation toward zero of
  \<open>sampling_rate * mel_window_step / 1000\<close>, not its rounding: the integer quotient of
  the product by 1000 for a non-negative product. It is positive exactly when the
  product is at least 1000, it equals the rounded quotient when the product is a
  multiple of 1000, and it is 160 for the configured constants.
\<close>

theorem samples_per_frame_truncates:
  "samples_per_frame cfg =
     (if 0 \<le> sampling_rate cfg * mel_window_step cfg
      then (sampling_rate cfg * mel_window_step cfg) div 1000
      else - ((- (sampling_rate cfg * mel_window_step cfg)) div 1000)) \<and>
   (0 < samples_per_frame cfg \<longleftrightarrow> 1000 \<le> sampling_rate cfg * mel_window_step cfg) \<and>
   (1000 dvd sampling_rate cfg * mel_window_step cfg \<longrightarrow>
      samples_per_frame cfg
        = np_round (real_of_int (sampling_rate cfg * mel_window_step cfg) / 1000)) \<and>
   samples_per_frame default_params = 160"
proof -
  define a where "a = sampling_rate cfg * mel_window_step cfg"
  have eq: "samples_per_frame cfg = (if 0 \<le> a then a div 1000 else - ((- a) div 1000))"
    unfolding samples_per_frame_def a_def[symmetric] by (rule py_int_of_int_div_1000)
  have pos: "0 < samples_per_frame cfg \<longleftrightarrow> 1000 \<le> a"
  proof (cases "0 \<le> a")
    case True
    then show ?thesis unfolding eq by (simp add: pos_imp_zdiv_pos_iff)
  next
    case False
    then have "0 \<le> (- a) div 1000" by (simp add: pos_imp_zdiv_nonneg_iff)
    then show ?thesis unfolding eq using False by simp
  qed
  have rnd: "samples_per_frame cfg = np_round (real_of_int a / 1000)" if d: "1000 dvd a"
  proof -
    obtain q where q: "a = 1000 * q" using d by (auto simp add: dvd_def)
    have "np_round (real_of_int a / 1000) = q"
      by (simp add: q np_round_def Let_def)
    moreover have "(- (1000 * q)) div 1000 = - q"
      by (simp add: zdiv_zminus1_eq_if)
    then have "samples_per_frame cfg = q"
      unfolding eq by (simp add: q)
    ultimately show ?thesis by simp
  qed
  show ?thesis
    using eq pos rnd samples_per_frame_default unfolding a_def by blast
qed

theorem samples_per_frame_truncates_witness:
  "samples_per_frame \<lparr>sampling_rate = 22050, mel_window_step = 15, partials_n_frames = 160\<rparr> = 330 \<and>
   samples_per_frame \<lparr>sampling_rate = 16000, mel_window_step = 10, partials_n_frames = 160\<rparr>
     = np_round (real_of_int (16000 * 10) / 1000) \<and>
   0 < samples_per_frame \<lparr>sampling_rate = 16000, mel_window_step = 10, partials_n_frames = 160\<rparr>"
  using samples_per_frame_truncates
      [of "\<lparr>sampling_rate = 22050, mel_window_step = 15, partials_n_frames = 160\<rparr>"]
    samples_per_frame_truncates
      [of "\<lparr>sampling_rate = 16000, mel_window_step = 10, partials_n_frames = 160\<rparr>"]
  by simp

text \<open>
  The claim as the specification words it fails: at 22050 Hz with a 15 ms step the
  quotient is 330.75, which the code truncates to 330 and rounding takes to 331; and at
  99 Hz with a 10 ms step the value is 0, not a positive integer.
\<close>

theorem samples_per_frame_round_counterexample:
  "samples_per_frame \<lparr>sampling_rate = 22050, mel_window_step = 15, partials_n_frames = 160\<rparr>
     \<noteq> np_round (real_of_int (22050 * 15) / 1000) \<and>
   samples_per_frame \<lparr>sampling_rate = 22050, mel_window_step = 15, partials_n_frames = 160\<rparr>
     \<noteq> round (real_of_int (22050 * 15) / 1000 :: real) \<and>
   \<not> 0 < samples_per_frame \<lparr>sampling_rate = 99, mel_window_step = 10, partials_n_frames = 160\<rparr>"
proof -
  have fl: "\<lfloor>330750 / 1000 :: real\<rfloor> = 330" by simp
  have "np_round (330750 / 1000) = 331"
    unfolding np_round_def Let_def fl by simp
  moreover have "round (330750 / 1000 :: real) = 331"
    by (simp add: round_def)
  moreover have "samples_per_frame
      \<lparr>sampling_rate = 22050, mel_window_step = 15, partials_n_frames = 160\<rparr> = 330"
    by (simp add: samples_per_frame_def py_int_def)
  moreover have "samples_per_frame
      \<lparr>sampling_rate = 99, mel_window_step = 10, partials_n_frames = 160\<rparr> = 0"
    by (simp add: samples_per_frame_def py_int_def)
  ultimately show ?thesis by simp
qed

subsection \<open>Vectors: mean and norm\<close>











subsection \<open>The utterance pipeline\<close>

text \<open>
  Claim C6. With \<open>using_partials\<close> false, the result is the first (and by the model's
  contract only) embedding that the model returns for the batch holding the one
  spectrogram of the whole waveform, returned as it is; with \<open>return_partials\<close> the other
  two components are \<open>None\<close>, and without it there are none. The result does not depend
  on the configuration or the keyword arguments, so \<open>compute_partial_slices\<close> has no part
  in it: it is the same where those arguments would make \<open>compute_partial_slices\<close> fail.
\<close>

theorem embed_utterance_whole:
  "embed_utterance cfg model f wav False return_partials kw =
     (case model of
        None \<Rightarrow> Inl ModelNotLoaded
      | Some forward \<Rightarrow>
          (case forward [f wav] of
             [] \<Rightarrow> Inl IndexError
           | e # rest \<Rightarrow>
               Inr (if return_partials then EmbedPartials e None None else Embed e))) \<and>
   embed_utterance cfg model f wav False return_partials kw =
     embed_utterance cfg' model f wav False return_partials kw'"
  by (simp add: embed_utterance_def embed_frames_batch_def Let_def
      split: option.splits list.splits)

theorem embed_utterance_whole_witness:
  "embed_utterance default_params (Some (map (\<lambda>frames. [3, 4]))) (\<lambda>w. [w]) [1, 2] False True
     (no_kwargs\<lparr>kw_overlap := Some 2\<rparr>) = Inr (EmbedPartials [3, 4] None None) \<and>
   embed_utterance default_params (Some (map (\<lambda>frames. [3, 4]))) (\<lambda>w. [w]) [1, 2] False False
     (no_kwargs\<lparr>kw_overlap := Some 2\<rparr>) = Inr (Embed [3, 4]) \<and>
   embed_utterance default_params (Some (map (\<lambda>frames. [3, 4]))) (\<lambda>w. [w]) [1, 2] True False
     (no_kwargs\<lparr>kw_overlap := Some 2\<rparr>) = Inl AssertionError"
proof -
  have "embed_utterance default_params (Some (map (\<lambda>frames. [3, 4]))) (\<lambda>w. [w]) [1, 2] True False
     (no_kwargs\<lparr>kw_overlap := Some 2\<rparr>) = Inl AssertionError"
    by (simp add: embed_utterance_def call_compute_partial_slices_def no_kwargs_def
        compute_partial_slices_def)
  then show ?thesis
    using embed_utterance_whole [of default_params "Some (map (\<lambda>frames. [3, 4]))" "\<lambda>w. [w]"
        "[1, 2]" True "no_kwargs\<lparr>kw_overlap := Some 2\<rparr>"]
      embed_utterance_whole [of default_params "Some (map (\<lambda>frames. [3, 4]))" "\<lambda>w. [w]"
        "[1, 2]" False "no_kwargs\<lparr>kw_overlap := Some 2\<rparr>"]
    by simp
qed




subsection \<open>Aggregation of the partial embeddings\<close>












end
